theory Spec2Isabelle
  imports Complex_Main
begin

section \<open>Conventions of the embedding\<close>

text \<open>
  The covered-call backtester is Python over \<open>float\<close>, \<open>int\<close> and \<open>datetime.date\<close>.
  \<^item> A \<open>date\<close> is its proleptic ordinal, an \<open>int\<close>; \<open>(a - b).days\<close> is \<open>a - b\<close> and
    \<open>d + timedelta(days=n)\<close> is \<open>d + n\<close>.
  \<^item> A Python \<open>int\<close> is an \<open>int\<close>; \<open>//\<close> is \<open>div\<close> (both round towards minus infinity).
  \<^item> A finite \<open>float\<close> is a \<open>real\<close>: arithmetic is exact, so rounding and overflow are
    outside the model. NaN, which the volatility estimator produces on purpose, is
    \<open>None\<close> in a \<open>real option\<close>.
  \<^item> A division whose divisor is a Python \<open>int\<close> or \<open>float\<close> equal to zero raises
    \<open>ZeroDivisionError\<close>; such divisions return \<open>Inl ZeroDivisionError\<close>. The numpy
    arithmetic inside the pricing functions raises nothing and is the total arithmetic
    of \<open>real\<close>; its values mean something for positive prices and strikes.
  \<^item> The formatted \<open>details\<close> text of a trade is kept as the tuple of values that the
    f-string prints.
\<close>

type_synonym date = int

datatype py_error =
    ValueError_insufficient_data  \<comment> \<open>\<open>ValueError("Need at least 30 trading days for backtest")\<close>\<close>
  | ZeroDivisionError
  | TypeError

section \<open>\<open>config.py\<close>\<close>

text \<open>The fields read by the pricing, strategy, cash-floor and backtest code.\<close>

record CoveredCallConfig =
  shares :: int
  min_strike :: real
  strike_candidates :: "real list"
  target_dte :: int
  roll_dte_threshold :: int
  roll_profit_pct :: real
  commission_per_contract :: real
  bid_ask_spread_pct :: real
  risk_free_rate :: real
  net_cash_per_share :: real
  cash_burn_per_quarter :: real

definition default_config :: CoveredCallConfig where
  "default_config =
     \<lparr> shares = 1000, min_strike = 2.50,
       strike_candidates = [2.00, 2.50, 3.00, 3.50, 4.00, 5.00],
       target_dte = 30, roll_dte_threshold = 5, roll_profit_pct = 0.80,
       commission_per_contract = 0.65, bid_ask_spread_pct = 0.15,
       risk_free_rate = 0.045, net_cash_per_share = 1.50,
       cash_burn_per_quarter = 0.10 \<rparr>"

section \<open>\<open>pricing.py\<close>\<close>

text \<open>
  \<open>scipy.stats.norm.cdf\<close>, the standard normal distribution function, by its power
  series \<open>1/2 + (\<Sum>n. (-1)^n x^(2n+1) / (n! 2^n (2n+1))) / sqrt (2 pi)\<close>. It is the one
  definition here that does not compute: every concrete evaluation below takes a branch
  of the pricing code that does not call it (no time left to expiry, or a strike that is
  filtered out or fixed before any candidate is priced), and every general property
  holds whatever its values are.
\<close>

definition norm_cdf :: "real \<Rightarrow> real" where
  "norm_cdf x =
     1 / 2 + (\<Sum>n. (- 1) ^ n * x ^ (2 * n + 1) / (fact n * 2 ^ n * real (2 * n + 1)))
             / sqrt (2 * pi)"

definition black_scholes_call :: "real \<Rightarrow> real \<Rightarrow> real \<Rightarrow> real \<Rightarrow> real \<Rightarrow> real" where
  "black_scholes_call S K T r sigma =
     (if T \<le> 0 then max (S - K) 0
      else if sigma \<le> 0 then max (S * exp (- r * T) - K * exp (- r * T)) 0
      else
        let d1 = (ln (S / K) + (r + 0.5 * sigma\<^sup>2) * T) / (sigma * sqrt T);
            d2 = d1 - sigma * sqrt T
        in S * norm_cdf d1 - K * exp (- r * T) * norm_cdf d2)"

definition call_delta :: "real \<Rightarrow> real \<Rightarrow> real \<Rightarrow> real \<Rightarrow> real \<Rightarrow> real" where
  "call_delta S K T r sigma =
     (if T \<le> 0 then (if S > K then 1 else 0)
      else
        let d1 = (ln (S / K) + (r + 0.5 * sigma\<^sup>2) * T) / (sigma * sqrt T)
        in norm_cdf d1)"

definition apply_bid_ask_slippage :: "real \<Rightarrow> real \<Rightarrow> real" where
  "apply_bid_ask_slippage theoretical_price spread_pct =
     theoretical_price * (1 - spread_pct / 2)"

subsection \<open>\<open>implied_volatility_from_history\<close>\<close>

text \<open>
  \<open>np.log(prices[1:] / prices[:-1])\<close>, elementwise. The quotient of two finite floats and
  its logarithm are finite exactly when the divisor is not zero and the quotient is
  positive; otherwise numpy yields \<open>inf\<close>, \<open>-inf\<close> or \<open>nan\<close>, all of which are \<open>None\<close>
  here, because a window that holds one of them has standard deviation \<open>nan\<close>.
\<close>

definition log_return :: "real \<Rightarrow> real \<Rightarrow> real option" where
  "log_return later earlier =
     (if earlier \<noteq> 0 \<and> later / earlier > 0 then Some (ln (later / earlier)) else None)"

definition log_returns_of :: "real list \<Rightarrow> real option list" where
  "log_returns_of prices = map2 log_return (tl prices) (butlast prices)"

text \<open>\<open>np.std\<close>: the population standard deviation; \<open>nan\<close> on an empty slice and on a
  slice that holds a non-finite value.\<close>

definition np_std :: "real option list \<Rightarrow> real option" where
  "np_std xs =
     (if xs = [] \<or> None \<in> set xs then None
      else
        let vs = map the xs;
            n = real (length vs);
            m = sum_list vs / n
        in Some (sqrt (sum_list (map (\<lambda>v. (v - m)\<^sup>2) vs) / n)))"

text \<open>The slice \<open>a[lo:hi]\<close> for \<open>0 \<le> lo\<close>, \<open>0 \<le> hi\<close>.\<close>

definition slice :: "'a list \<Rightarrow> nat \<Rightarrow> nat \<Rightarrow> 'a list" where
  "slice a lo hi = drop lo (take hi a)"

text \<open>The body of \<open>for i in range(window, len(log_returns))\<close>.\<close>

definition iv_loop_body ::
  "real option list \<Rightarrow> nat \<Rightarrow> real \<Rightarrow> real option list \<Rightarrow> nat \<Rightarrow> real option list" where
  "iv_loop_body log_returns window iv_premium iv_series i =
     (let hv = map_option (\<lambda>sd. sd * sqrt 252) (np_std (slice log_returns (i - window) i))
      in iv_series[i + 1 := map_option (\<lambda>h. h * iv_premium) hv])"

text \<open>\<open>np.maximum(x, 0.30)\<close> keeps \<open>nan\<close>.\<close>

definition np_maximum :: "real option \<Rightarrow> real \<Rightarrow> real option" where
  "np_maximum x lo = map_option (\<lambda>v. max v lo) x"

text \<open>The window is a count of days (the callers pass 20, the default is 30).\<close>

definition implied_volatility_from_history ::
  "real list \<Rightarrow> nat \<Rightarrow> real \<Rightarrow> real option list" where
  "implied_volatility_from_history prices window iv_premium =
     (let log_returns = log_returns_of prices;
          iv_series0 = replicate (length prices) None;
          iv_series1 = foldl (iv_loop_body log_returns window iv_premium) iv_series0
                         [window ..< length log_returns];
          first_valid = window + 1;
          iv_series2 =
            (if first_valid < length iv_series1
             then replicate first_valid (iv_series1 ! first_valid) @ drop first_valid iv_series1
             else iv_series1)
      in map (\<lambda>x. np_maximum x 0.30) iv_series2)"

section \<open>\<open>cash_floor.py\<close>\<close>

text \<open>The four warning texts of \<open>CashFloorMonitor.check\<close>, with the values they print.\<close>

datatype cash_warning =
    Critical_fully_burned
  | Thesis_weakened real "real option" real   \<comment> \<open>stock price, ratio, estimated cash\<close>
  | Below_cash real real               \<comment> \<open>stock price, estimated cash\<close>
  | Cash_burn_alert real real          \<comment> \<open>estimated cash, initial cash\<close>

record CashFloorSnapshot =
  cf_date :: date
  cf_stock_price :: real
  estimated_net_cash_per_share :: real
  market_cap_to_cash_ratio :: "real option"   \<comment> \<open>\<open>None\<close> is \<open>float("inf")\<close>\<close>
  thesis_intact :: bool
  warning :: "cash_warning option"

record CashFloorMonitor =
  initial_net_cash :: real
  quarterly_burn :: real
  warning_ratio :: real
  danger_ratio :: real
  snapshots :: "CashFloorSnapshot list"

definition CashFloorMonitor_init :: "real \<Rightarrow> real \<Rightarrow> CashFloorMonitor" where
  "CashFloorMonitor_init initial_net_cash_per_share quarterly_burn_per_share =
     \<lparr> initial_net_cash = initial_net_cash_per_share,
       quarterly_burn = quarterly_burn_per_share,
       warning_ratio = 1.5, danger_ratio = 0.8, snapshots = [] \<rparr>"

definition estimate_cash_at_date :: "CashFloorMonitor \<Rightarrow> date \<Rightarrow> date \<Rightarrow> real" where
  "estimate_cash_at_date m start_date current_date =
     (let quarters_elapsed = real_of_int (current_date - start_date) / 90
      in max (initial_net_cash m - quarterly_burn m * quarters_elapsed) 0)"

definition check :: "CashFloorMonitor \<Rightarrow> date \<Rightarrow> real \<Rightarrow> date \<Rightarrow> CashFloorMonitor \<times> CashFloorSnapshot" where
  "check m current_date stock_price start_date =
     (let est_cash = estimate_cash_at_date m start_date current_date;
          ratio = (if est_cash > 0 then Some (stock_price / est_cash) else None);
          (warning1, thesis1) =
            (if est_cash \<le> 0 then (Some Critical_fully_burned, False)
             else if (case ratio of None \<Rightarrow> True | Some q \<Rightarrow> q > warning_ratio m)
               then (Some (Thesis_weakened stock_price ratio est_cash), True)
             else if stock_price < est_cash * danger_ratio m
               then (Some (Below_cash stock_price est_cash), True)
             else (None, True));
          (warning2, thesis2) =
            (if est_cash < initial_net_cash m * 0.5
             then (Some (Cash_burn_alert est_cash (initial_net_cash m)), False)
             else (warning1, thesis1));
          snapshot =
            \<lparr> cf_date = current_date, cf_stock_price = stock_price,
              estimated_net_cash_per_share = est_cash,
              market_cap_to_cash_ratio = ratio,
              thesis_intact = thesis2, warning = warning2 \<rparr>
      in (m\<lparr>snapshots := snapshots m @ [snapshot]\<rparr>, snapshot))"

section \<open>\<open>strategy.py\<close>\<close>

record OptionPosition =
  strike :: real
  expiration :: date
  premium_received :: real
  contracts :: int
  entry_date :: date
  entry_stock_price :: real

datatype action = SELL_CALL | EXPIRE | CALLED_AWAY | ROLL | BUY_STOCK

text \<open>The values printed into \<open>TradeRecord.details\<close>, one constructor per f-string.\<close>

datatype details =
    Bought int real                      \<comment> \<open>shares, stock price\<close>
  | Sold int real date real real real    \<comment> \<open>contracts, strike, expiration, net premium per share,
                                             total premium, volatility\<close>
  | Called_away_at real real real        \<comment> \<open>strike, stock price, proceeds\<close>
  | Expired_worthless real real          \<comment> \<open>strike, stock price\<close>
  | Bought_back int real real real       \<comment> \<open>contracts, strike, buyback cost per share, total cost\<close>

record TradeRecord =
  tr_date :: date
  tr_action :: action
  tr_strike :: "real option"
  tr_expiration :: "date option"
  premium :: real                        \<comment> \<open>positive = received, negative = paid\<close>
  tr_stock_price :: real
  tr_shares :: int
  tr_details :: details

record CoveredCallStrategy =
  config :: CoveredCallConfig
  position :: "OptionPosition option"
  shares_held :: int
  trades :: "TradeRecord list"
  total_premium_collected :: real
  total_commissions :: real
  times_called_away :: int

definition CoveredCallStrategy_init :: "CoveredCallConfig \<Rightarrow> CoveredCallStrategy" where
  "CoveredCallStrategy_init cfg =
     \<lparr> config = cfg, position = None, shares_held = 0, trades = [],
       total_premium_collected = 0, total_commissions = 0, times_called_away = 0 \<rparr>"

subsection \<open>\<open>select_strike\<close>\<close>

text \<open>
  The loop over \<open>strike_candidates\<close>, carrying \<open>(best_strike, best_score)\<close>. The score
  divides by \<open>stock_price\<close> and by \<open>dte\<close>; a zero divisor raises.
\<close>

fun select_strike_loop ::
  "CoveredCallConfig \<Rightarrow> real \<Rightarrow> real \<Rightarrow> int \<Rightarrow> real list \<Rightarrow> real \<times> real
     \<Rightarrow> py_error + real \<times> real" where
  "select_strike_loop cfg stock_price iv dte [] best = Inr best"
| "select_strike_loop cfg stock_price iv dte (k # ks) best =
     (if k < min_strike cfg then select_strike_loop cfg stock_price iv dte ks best
      else if k \<le> stock_price * 1.02 then select_strike_loop cfg stock_price iv dte ks best
      else
        let T = real_of_int dte / 365;
            price = black_scholes_call stock_price k T (risk_free_rate cfg) iv;
            delta = call_delta stock_price k T (risk_free_rate cfg) iv;
            net_price = apply_bid_ask_slippage price (bid_ask_spread_pct cfg)
        in if net_price < 0.01 then select_strike_loop cfg stock_price iv dte ks best
           else if stock_price = 0 \<or> dte = 0 then Inl ZeroDivisionError
           else
             let annualized_return = (net_price / stock_price) * (365 / real_of_int dte);
                 assignment_penalty = 1 - 0.5 * delta;
                 score = annualized_return * assignment_penalty
             in if score > snd best
                then select_strike_loop cfg stock_price iv dte ks (k, score)
                else select_strike_loop cfg stock_price iv dte ks best)"

definition select_strike ::
  "CoveredCallConfig \<Rightarrow> real \<Rightarrow> real \<Rightarrow> int \<Rightarrow> py_error + real \<times> real" where
  "select_strike cfg stock_price iv dte =
     (case select_strike_loop cfg stock_price iv dte (strike_candidates cfg)
             (min_strike cfg, - 1) of
        Inl e \<Rightarrow> Inl e
      | Inr (best_strike, best_score) \<Rightarrow>
          Inr (best_strike,
               black_scholes_call stock_price best_strike (real_of_int dte / 365)
                 (risk_free_rate cfg) iv))"

subsection \<open>Position management\<close>

definition open_stock_position ::
  "CoveredCallStrategy \<Rightarrow> date \<Rightarrow> real \<Rightarrow> CoveredCallStrategy \<times> TradeRecord" where
  "open_stock_position s current_date stock_price =
     (let trade =
            \<lparr> tr_date = current_date, tr_action = BUY_STOCK,
              tr_strike = None, tr_expiration = None,
              premium = - stock_price * real_of_int (shares (config s)),
              tr_stock_price = stock_price, tr_shares = shares (config s),
              tr_details = Bought (shares (config s)) stock_price \<rparr>
      in (s\<lparr>shares_held := shares (config s), trades := trades s @ [trade]\<rparr>, trade))"

definition sell_call ::
  "CoveredCallStrategy \<Rightarrow> date \<Rightarrow> real \<Rightarrow> real \<Rightarrow> int option
     \<Rightarrow> py_error + CoveredCallStrategy \<times> TradeRecord" where
  "sell_call s current_date stock_price iv dte_arg =
     (let dte = (case dte_arg of None \<Rightarrow> target_dte (config s) | Some n \<Rightarrow> n)
      in case select_strike (config s) stock_price iv dte of
           Inl e \<Rightarrow> Inl e
         | Inr (strike_sel, theoretical_premium) \<Rightarrow>
             let net_premium =
                   apply_bid_ask_slippage theoretical_premium (bid_ask_spread_pct (config s));
                 n_contracts = shares_held s div 100;
                 commission = real_of_int n_contracts * commission_per_contract (config s);
                 total_premium = net_premium * real_of_int n_contracts * 100 - commission;
                 expiration_date = current_date + dte;
                 pos =
                   \<lparr> strike = strike_sel, expiration = expiration_date,
                     premium_received = total_premium, contracts = n_contracts,
                     entry_date = current_date, entry_stock_price = stock_price \<rparr>;
                 trade =
                   \<lparr> tr_date = current_date, tr_action = SELL_CALL,
                     tr_strike = Some strike_sel, tr_expiration = Some expiration_date,
                     premium = total_premium,
                     tr_stock_price = stock_price, tr_shares = shares_held s,
                     tr_details =
                       Sold n_contracts strike_sel expiration_date net_premium total_premium iv \<rparr>
             in Inr (s\<lparr>position := Some pos,
                       total_premium_collected := total_premium_collected s + total_premium,
                       total_commissions := total_commissions s + commission,
                       trades := trades s @ [trade]\<rparr>, trade))"

definition check_expiration ::
  "CoveredCallStrategy \<Rightarrow> date \<Rightarrow> real \<Rightarrow> CoveredCallStrategy \<times> TradeRecord option" where
  "check_expiration s current_date stock_price =
     (case position s of
        None \<Rightarrow> (s, None)
      | Some pos \<Rightarrow>
          if current_date < expiration pos then (s, None)
          else if stock_price \<ge> strike pos then
            let proceeds = strike pos * real_of_int (shares_held s);
                trade =
                  \<lparr> tr_date = current_date, tr_action = CALLED_AWAY,
                    tr_strike = Some (strike pos), tr_expiration = Some (expiration pos),
                    premium = 0,
                    tr_stock_price = stock_price, tr_shares = shares_held s,
                    tr_details = Called_away_at (strike pos) stock_price proceeds \<rparr>
            in (s\<lparr>times_called_away := times_called_away s + 1,
                  shares_held := 0, position := None,
                  trades := trades s @ [trade]\<rparr>, Some trade)
          else
            let trade =
                  \<lparr> tr_date = current_date, tr_action = EXPIRE,
                    tr_strike = Some (strike pos), tr_expiration = Some (expiration pos),
                    premium = 0,
                    tr_stock_price = stock_price, tr_shares = shares_held s,
                    tr_details = Expired_worthless (strike pos) stock_price \<rparr>
            in (s\<lparr>position := None, trades := trades s @ [trade]\<rparr>, Some trade))"

text \<open>
  \<open>should_roll\<close> divides \<open>premium_received\<close> by the \<open>int\<close> \<open>contracts * 100\<close>, after the
  test on the days remaining.
\<close>

definition should_roll ::
  "CoveredCallStrategy \<Rightarrow> date \<Rightarrow> real \<Rightarrow> real \<Rightarrow> py_error + bool" where
  "should_roll s current_date stock_price iv =
     (case position s of
        None \<Rightarrow> Inr False
      | Some pos \<Rightarrow>
          let days_remaining = expiration pos - current_date
          in if days_remaining \<le> roll_dte_threshold (config s) then Inr True
             else
               let T = real_of_int days_remaining / 365;
                   current_value =
                     black_scholes_call stock_price (strike pos) T (risk_free_rate (config s)) iv
               in if contracts pos * 100 = 0 then Inl ZeroDivisionError
                  else
                    let original_premium_per_share =
                          premium_received pos / real_of_int (contracts pos * 100);
                        profit_captured = original_premium_per_share - current_value
                    in if profit_captured
                            \<ge> original_premium_per_share * roll_profit_pct (config s)
                       then Inr True else Inr False)"

definition roll_position ::
  "CoveredCallStrategy \<Rightarrow> date \<Rightarrow> real \<Rightarrow> real
     \<Rightarrow> py_error + CoveredCallStrategy \<times> TradeRecord list" where
  "roll_position s current_date stock_price iv =
     (let (s1, bought) =
            (case position s of
               None \<Rightarrow> (s, [])
             | Some pos \<Rightarrow>
                 let days_remaining = expiration pos - current_date;
                     T = max (real_of_int days_remaining / 365) 0.001;
                     buyback_price =
                       black_scholes_call stock_price (strike pos) T
                         (risk_free_rate (config s)) iv;
                     buyback_cost = buyback_price * (1 + bid_ask_spread_pct (config s) / 2);
                     n_contracts = contracts pos;
                     commission = real_of_int n_contracts * commission_per_contract (config s);
                     total_cost = buyback_cost * real_of_int n_contracts * 100 + commission;
                     trade =
                       \<lparr> tr_date = current_date, tr_action = ROLL,
                         tr_strike = Some (strike pos), tr_expiration = Some (expiration pos),
                         premium = - total_cost,
                         tr_stock_price = stock_price, tr_shares = shares_held s,
                         tr_details =
                           Bought_back n_contracts (strike pos) buyback_cost total_cost \<rparr>
                 in (s\<lparr>total_commissions := total_commissions s + commission,
                       trades := trades s @ [trade],
                       position := None\<rparr>, [trade]))
      in case sell_call s1 current_date stock_price iv None of
           Inl e \<Rightarrow> Inl e
         | Inr (s2, sell_trade) \<Rightarrow> Inr (s2, bought @ [sell_trade]))"

section \<open>\<open>backtest.py\<close>\<close>

record DailyEquitySnapshot =
  eq_Date :: date
  Equity :: real
  StockPrice :: real
  Cash :: real
  StockValue :: real
  OptionLiability :: real
  IV :: real

text \<open>The variables that the day loop of \<open>CoveredCallBacktest.run\<close> updates.\<close>

record LoopState =
  strategy :: CoveredCallStrategy
  cash_monitor :: CashFloorMonitor
  cash :: real
  equity_curve :: "DailyEquitySnapshot list"
  cash_warnings :: "(date \<times> cash_warning) list"

text \<open>
  The price table after normalisation is a list of \<open>(Date, Close)\<close> rows. It is sorted by
  date and restricted to the window; a bound that is \<open>None\<close> does not filter.
\<close>

definition restrict_window ::
  "(date \<times> real) list \<Rightarrow> date option \<Rightarrow> date option \<Rightarrow> (date \<times> real) list" where
  "restrict_window prices start_date end_date =
     (let df = sort_key fst prices;
          df1 = (case start_date of None \<Rightarrow> df | Some sd \<Rightarrow> filter (\<lambda>row. fst row \<ge> sd) df);
          df2 = (case end_date of None \<Rightarrow> df1 | Some ed \<Rightarrow> filter (\<lambda>row. fst row \<le> ed) df1)
      in df2)"

text \<open>\<open>iv_series[i] if not np.isnan(iv_series[i]) else 0.50\<close>\<close>

definition iv_at :: "real option list \<Rightarrow> nat \<Rightarrow> real" where
  "iv_at iv_series i = (case iv_series ! i of None \<Rightarrow> 0.50 | Some v \<Rightarrow> v)"

text \<open>"Day 0: buy stock and sell first call".\<close>

definition entry_block ::
  "CoveredCallConfig \<Rightarrow> nat \<Rightarrow> date \<Rightarrow> real \<Rightarrow> real \<Rightarrow> CoveredCallStrategy \<times> real
     \<Rightarrow> py_error + CoveredCallStrategy \<times> real" where
  "entry_block cfg i current_date stock_price iv sc =
     (let (s, c) = sc
      in if shares_held s = 0 \<and> position s = None \<and> (i = 0 \<or> times_called_away s > 0) then
           let (s1, buy_trade) = open_stock_position s current_date stock_price;
               cost = stock_price * real_of_int (shares cfg);
               c1 = c - cost
           in case sell_call s1 current_date stock_price iv None of
                Inl e \<Rightarrow> Inl e
              | Inr (s2, sell_trade) \<Rightarrow> Inr (s2, c1 + premium sell_trade)
         else Inr (s, c))"

text \<open>
  "Check for expiration" and, as its \<open>elif\<close> on the same test \<open>strategy.position is not
  None\<close>, "Check for early roll opportunity".
\<close>

definition expiration_block ::
  "date \<Rightarrow> real \<Rightarrow> real \<Rightarrow> CoveredCallStrategy \<times> real
     \<Rightarrow> py_error + CoveredCallStrategy \<times> real" where
  "expiration_block current_date stock_price iv sc =
     (let (s, c) = sc
      in if position s \<noteq> None then
           (case check_expiration s current_date stock_price of
              (s1, None) \<Rightarrow> Inr (s1, c)
            | (s1, Some exp_trade) \<Rightarrow>
                (case (if tr_action exp_trade = CALLED_AWAY
                       then (case tr_strike exp_trade of
                               None \<Rightarrow> Inl TypeError
                             | Some k \<Rightarrow> Inr (c + real_of_int (shares (config s1)) * k))
                       else Inr c) of
                   Inl e \<Rightarrow> Inl e
                 | Inr c1 \<Rightarrow>
                     if tr_action exp_trade = EXPIRE then
                       (case sell_call s1 current_date stock_price iv None of
                          Inl e \<Rightarrow> Inl e
                        | Inr (s2, sell_trade) \<Rightarrow> Inr (s2, c1 + premium sell_trade))
                     else Inr (s1, c1)))
         else if position s \<noteq> None then
           (case should_roll s current_date stock_price iv of
              Inl e \<Rightarrow> Inl e
            | Inr False \<Rightarrow> Inr (s, c)
            | Inr True \<Rightarrow>
                (case roll_position s current_date stock_price iv of
                   Inl e \<Rightarrow> Inl e
                 | Inr (s1, roll_trades) \<Rightarrow>
                     Inr (s1, foldl (\<lambda>acc t. acc + premium t) c roll_trades)))
         else Inr (s, c))"

text \<open>"Cash floor check (weekly)".\<close>

definition cash_floor_block ::
  "nat \<Rightarrow> date \<Rightarrow> real \<Rightarrow> date \<Rightarrow> CashFloorMonitor \<times> (date \<times> cash_warning) list
     \<Rightarrow> CashFloorMonitor \<times> (date \<times> cash_warning) list" where
  "cash_floor_block i current_date stock_price backtest_start mw =
     (let (m, ws) = mw
      in if i mod 5 = 0 then
           let (m1, snapshot) = check m current_date stock_price backtest_start
           in (m1, (case warning snapshot of
                      None \<Rightarrow> ws
                    | Some w \<Rightarrow> ws @ [(current_date, w)]))
         else (m, ws))"

text \<open>"Calculate daily equity", with the short call marked to market.\<close>

definition equity_snapshot ::
  "CoveredCallConfig \<Rightarrow> date \<Rightarrow> real \<Rightarrow> real \<Rightarrow> CoveredCallStrategy \<Rightarrow> real
     \<Rightarrow> DailyEquitySnapshot" where
  "equity_snapshot cfg current_date stock_price iv s c =
     (let stock_value = real_of_int (shares_held s) * stock_price;
          option_liability =
            (case position s of
               None \<Rightarrow> 0
             | Some pos \<Rightarrow>
                 let days_remaining = expiration pos - current_date
                 in if days_remaining > 0 then
                      black_scholes_call stock_price (strike pos)
                        (real_of_int days_remaining / 365) (risk_free_rate cfg) iv
                      * real_of_int (contracts pos) * 100
                    else 0);
          total_equity = c + stock_value - option_liability
      in \<lparr> eq_Date = current_date, Equity = total_equity, StockPrice = stock_price,
           Cash = c, StockValue = stock_value, OptionLiability = option_liability,
           IV = iv \<rparr>)"

text \<open>One iteration of \<open>for i, row in df.iterrows()\<close>; a row is \<open>(i, Date, Close)\<close>.\<close>

definition day_step ::
  "CoveredCallConfig \<Rightarrow> date \<Rightarrow> real option list \<Rightarrow> nat \<times> date \<times> real \<Rightarrow> LoopState
     \<Rightarrow> py_error + LoopState" where
  "day_step cfg backtest_start iv_series row st =
     (let (i, current_date, stock_price) = row;
          iv = iv_at iv_series i
      in case entry_block cfg i current_date stock_price iv (strategy st, cash st) of
           Inl e \<Rightarrow> Inl e
         | Inr sc1 \<Rightarrow>
             (case expiration_block current_date stock_price iv sc1 of
                Inl e \<Rightarrow> Inl e
              | Inr (s2, c2) \<Rightarrow>
                  let (m, ws) =
                        cash_floor_block i current_date stock_price backtest_start
                          (cash_monitor st, cash_warnings st);
                      snap = equity_snapshot cfg current_date stock_price iv s2 c2
                  in Inr (st\<lparr>strategy := s2, cash_monitor := m, cash := c2,
                            equity_curve := equity_curve st @ [snap],
                            cash_warnings := ws\<rparr>)))"

fun run_loop ::
  "CoveredCallConfig \<Rightarrow> date \<Rightarrow> real option list \<Rightarrow> (nat \<times> date \<times> real) list \<Rightarrow> LoopState
     \<Rightarrow> py_error + LoopState" where
  "run_loop cfg backtest_start iv_series [] st = Inr st"
| "run_loop cfg backtest_start iv_series (row # rows) st =
     (case day_step cfg backtest_start iv_series row st of
        Inl e \<Rightarrow> Inl e
      | Inr st1 \<Rightarrow> run_loop cfg backtest_start iv_series rows st1)"

text \<open>
  The part of \<open>BacktestResult\<close> that is read off the strategy and the loop. The statistics
  of the equity curve (returns, drawdown, Sharpe ratio, cycle length) are numpy
  expressions evaluated after the loop; they raise nothing and are not modelled.
\<close>

record BacktestResult =
  res_total_premium_collected :: real
  res_total_commissions :: real
  net_premium :: real
  num_trades :: nat
  res_times_called_away :: int
  res_trades :: "TradeRecord list"
  daily_equity :: "DailyEquitySnapshot list"
  cash_floor_warnings :: "(date \<times> cash_warning) list"

definition initial_investment :: "CoveredCallConfig \<Rightarrow> (date \<times> real) list \<Rightarrow> real" where
  "initial_investment cfg df = snd (hd df) * real_of_int (shares cfg)"

definition initial_state :: "CoveredCallConfig \<Rightarrow> (date \<times> real) list \<Rightarrow> LoopState" where
  "initial_state cfg df =
     \<lparr> strategy = CoveredCallStrategy_init cfg,
       cash_monitor = CashFloorMonitor_init (net_cash_per_share cfg) (cash_burn_per_quarter cfg),
       cash = initial_investment cfg df,
       equity_curve = [], cash_warnings = [] \<rparr>"

definition rows_of :: "(date \<times> real) list \<Rightarrow> (nat \<times> date \<times> real) list" where
  "rows_of df = zip [0 ..< length df] df"

definition run ::
  "CoveredCallConfig \<Rightarrow> (date \<times> real) list \<Rightarrow> date option \<Rightarrow> date option
     \<Rightarrow> py_error + BacktestResult" where
  "run cfg prices start_date end_date =
     (let df = restrict_window prices start_date end_date
      in if length df < 30 then Inl ValueError_insufficient_data
         else
           let close_prices = map snd df;
               iv_series = implied_volatility_from_history close_prices 20 1.3;
               backtest_start = fst (hd df)
           in case run_loop cfg backtest_start iv_series (rows_of df) (initial_state cfg df) of
                Inl e \<Rightarrow> Inl e
              | Inr st \<Rightarrow>
                  Inr \<lparr> res_total_premium_collected = total_premium_collected (strategy st),
                        res_total_commissions = total_commissions (strategy st),
                        net_premium =
                          total_premium_collected (strategy st) - total_commissions (strategy st),
                        num_trades = length (trades (strategy st)),
                        res_times_called_away = times_called_away (strategy st),
                        res_trades = trades (strategy st),
                        daily_equity = equity_curve st,
                        cash_floor_warnings = cash_warnings st \<rparr>)"

section \<open>Auxiliary notions for the properties\<close>

text \<open>The warning is the "Downside protection thesis weakened" text.\<close>

definition is_weakened :: "cash_warning option \<Rightarrow> bool" where
  "is_weakened w = (case w of Some (Thesis_weakened _ _ _) \<Rightarrow> True | _ \<Rightarrow> False)"

text \<open>
  A strategy holding one lot of 1000 shares against a short 2.50 call of 10 contracts
  that expires on day 30.
\<close>

definition demo_position :: OptionPosition where
  "demo_position =
     \<lparr> strike = 2.50, expiration = 30, premium_received = 100, contracts = 10,
       entry_date = 0, entry_stock_price = 2.00 \<rparr>"

definition demo_strategy :: CoveredCallStrategy where
  "demo_strategy =
     (CoveredCallStrategy_init default_config)
       \<lparr> position := Some demo_position, shares_held := 1000 \<rparr>"

text \<open>A fresh strategy under the default configuration that holds \<open>n\<close> shares.\<close>

definition small_strategy :: "int \<Rightarrow> CoveredCallStrategy" where
  "small_strategy n = (CoveredCallStrategy_init default_config)\<lparr>shares_held := n\<rparr>"

text \<open>The value that the loop of \<open>implied_volatility_from_history\<close> writes at index \<open>i + 1\<close>.\<close>

definition iv_value :: "real option list \<Rightarrow> nat \<Rightarrow> real \<Rightarrow> nat \<Rightarrow> real option" where
  "iv_value log_returns window iv_premium i =
     map_option (\<lambda>h. h * iv_premium)
       (map_option (\<lambda>sd. sd * sqrt 252) (np_std (slice log_returns (i - window) i)))"

text \<open>
  The net price and the score that \<open>select_strike\<close> computes for the candidate \<open>k\<close>.
\<close>

definition net_price_of :: "CoveredCallConfig \<Rightarrow> real \<Rightarrow> real \<Rightarrow> int \<Rightarrow> real \<Rightarrow> real" where
  "net_price_of cfg stock_price iv dte k =
     apply_bid_ask_slippage
       (black_scholes_call stock_price k (real_of_int dte / 365) (risk_free_rate cfg) iv)
       (bid_ask_spread_pct cfg)"

definition score_of :: "CoveredCallConfig \<Rightarrow> real \<Rightarrow> real \<Rightarrow> int \<Rightarrow> real \<Rightarrow> real" where
  "score_of cfg stock_price iv dte k =
     (net_price_of cfg stock_price iv dte k / stock_price) * (365 / real_of_int dte)
       * (1 - 0.5 * call_delta stock_price k (real_of_int dte / 365) (risk_free_rate cfg) iv)"

text \<open>
  The theoretical buy-back price and the ROLL record of \<open>roll_position\<close>, for the open
  position \<open>pos\<close>.
\<close>

definition roll_buyback_price :: "CoveredCallStrategy \<Rightarrow> OptionPosition \<Rightarrow> date \<Rightarrow> real \<Rightarrow> real \<Rightarrow> real" where
  "roll_buyback_price s pos d S iv =
     black_scholes_call S (strike pos) (max (real_of_int (expiration pos - d) / 365) 0.001)
       (risk_free_rate (config s)) iv"

definition roll_buyback_trade ::
  "CoveredCallStrategy \<Rightarrow> OptionPosition \<Rightarrow> date \<Rightarrow> real \<Rightarrow> real \<Rightarrow> TradeRecord" where
  "roll_buyback_trade s pos d S iv =
     (let buyback_cost = roll_buyback_price s pos d S iv * (1 + bid_ask_spread_pct (config s) / 2);
          commission = real_of_int (contracts pos) * commission_per_contract (config s);
          total_cost = buyback_cost * real_of_int (contracts pos) * 100 + commission
      in \<lparr> tr_date = d, tr_action = ROLL,
           tr_strike = Some (strike pos), tr_expiration = Some (expiration pos),
           premium = - total_cost, tr_stock_price = S, tr_shares = shares_held s,
           tr_details = Bought_back (contracts pos) (strike pos) buyback_cost total_cost \<rparr>)"

text \<open>A price table of \<open>n\<close> consecutive days, days 0 to \<open>n - 1\<close>, all closing at \<open>p\<close>.\<close>

definition flat_prices :: "nat \<Rightarrow> real \<Rightarrow> (date \<times> real) list" where
  "flat_prices n p = map (\<lambda>i. (int i, p)) [0 ..< n]"

text \<open>
  The order in which \<open>CoveredCallBacktest.run\<close> calls the operations of the strategy, as a
  step relation. The phases are the points of the day loop between two calls:
  \<open>Day_start\<close> before the entry block (and after the last call of the previous day),
  \<open>After_buy\<close> between \<open>open_stock_position\<close> and the first \<open>sell_call\<close>,
  \<open>Before_expiration_check\<close> after the entry block, and \<open>After_expire\<close> between an
  EXPIRE returned by \<open>check_expiration\<close> and the replacement \<open>sell_call\<close>. The roll
  branch is an \<open>elif\<close> of the test that guards the expiration branch, so no step leads
  into it.
\<close>

datatype phase = Day_start | After_buy | Before_expiration_check | After_expire

inductive engine_reach :: "CoveredCallConfig \<Rightarrow> phase \<Rightarrow> CoveredCallStrategy \<Rightarrow> bool"
  for cfg :: CoveredCallConfig where
  reach_init:
    "engine_reach cfg Day_start (CoveredCallStrategy_init cfg)"
| reach_buy:
    "engine_reach cfg Day_start s \<Longrightarrow>
     shares_held s = 0 \<and> position s = None \<and> (i = (0::nat) \<or> times_called_away s > 0) \<Longrightarrow>
     open_stock_position s d S = (s', t) \<Longrightarrow>
     engine_reach cfg After_buy s'"
| reach_first_sale:
    "engine_reach cfg After_buy s \<Longrightarrow>
     sell_call s d S iv None = Inr (s', t) \<Longrightarrow>
     engine_reach cfg Before_expiration_check s'"
| reach_no_entry:
    "engine_reach cfg Day_start s \<Longrightarrow>
     \<not> (shares_held s = 0 \<and> position s = None \<and> (i = (0::nat) \<or> times_called_away s > 0)) \<Longrightarrow>
     engine_reach cfg Before_expiration_check s"
| reach_no_position:
    "engine_reach cfg Before_expiration_check s \<Longrightarrow>
     position s = None \<Longrightarrow>
     engine_reach cfg Day_start s"
| reach_not_expired:
    "engine_reach cfg Before_expiration_check s \<Longrightarrow>
     position s \<noteq> None \<Longrightarrow>
     check_expiration s d S = (s', None) \<Longrightarrow>
     engine_reach cfg Day_start s'"
| reach_called_away:
    "engine_reach cfg Before_expiration_check s \<Longrightarrow>
     position s \<noteq> None \<Longrightarrow>
     check_expiration s d S = (s', Some t) \<Longrightarrow>
     tr_action t = CALLED_AWAY \<Longrightarrow>
     engine_reach cfg Day_start s'"
| reach_expired:
    "engine_reach cfg Before_expiration_check s \<Longrightarrow>
     position s \<noteq> None \<Longrightarrow>
     check_expiration s d S = (s', Some t) \<Longrightarrow>
     tr_action t = EXPIRE \<Longrightarrow>
     engine_reach cfg After_expire s'"
| reach_replacement:
    "engine_reach cfg After_expire s \<Longrightarrow>
     sell_call s d S iv None = Inr (s', t) \<Longrightarrow>
     engine_reach cfg Day_start s'"

code_pred engine_reach .

text \<open>The shares are none or one lot, and a position is open only over one lot.\<close>

definition lot_invariant :: "CoveredCallConfig \<Rightarrow> CoveredCallStrategy \<Rightarrow> bool" where
  "lot_invariant cfg s \<longleftrightarrow>
     (shares_held s = 0 \<or> shares_held s = shares cfg)
     \<and> (position s \<noteq> None \<longrightarrow> shares_held s = shares cfg)"

text \<open>
  The sum of the recorded amounts of a trade log; the assignment proceeds that the day
  loop credits to cash, lot size times strike for every CALLED_AWAY record; the cash
  balance reconciled to both; and an equity curve whose last snapshot is computed from
  the current cash balance.
\<close>

definition assignment_proceeds :: "CoveredCallConfig \<Rightarrow> TradeRecord list \<Rightarrow> real" where
  "assignment_proceeds cfg ts =
     sum_list (map (\<lambda>t. real_of_int (shares cfg) * (case tr_strike t of Some k \<Rightarrow> k | None \<Rightarrow> 0))
                   (filter (\<lambda>t. tr_action t = CALLED_AWAY) ts))"

definition cash_flows :: "TradeRecord list \<Rightarrow> real" where
  "cash_flows ts = sum_list (map premium ts)"



text \<open>A loop state of the day loop around \<open>demo_strategy\<close>.\<close>

definition demo_state :: LoopState where
  "demo_state =
     \<lparr> strategy = demo_strategy,
       cash_monitor = CashFloorMonitor_init 1.50 0.10,
       cash = 0, equity_curve = [], cash_warnings = [] \<rparr>"

section \<open>Verified properties\<close>

subsection \<open>Cash-floor monitor\<close>

lemma estimate_450:
  assumes "initial_net_cash m = 1.50" "quarterly_burn m = 0.10" "current_date - start_date = 450"
  shows "estimate_cash_at_date m start_date current_date = 1"
  using assms by (simp add: estimate_cash_at_date_def)

lemma check_weakened_450:
  assumes "initial_net_cash m = 1.50"
    and est: "estimate_cash_at_date m start_date current_date = 1"
    and "warning_ratio m = 1.5"
  shows "is_weakened (warning (snd (check m current_date price start_date))) \<longleftrightarrow> price / 1 > 1.5"
  using assms(1,3) by (simp add: check_def est is_weakened_def Let_def)

text \<open>
  C9. The estimated cash per share is the initial cash minus the quarterly burn times the
  elapsed days over 90, floored at 0. With initial cash 1.50 and burn 0.10 per quarter
  the estimate after 450 days is exactly 1.00, and the check made then gives the
  weakened-thesis warning exactly when the price over the estimated cash exceeds 1.5
  (the default warning ratio).
\<close>

theorem cash_floor_estimate_and_warning:
  "estimate_cash_at_date m start_date current_date
     = max (initial_net_cash m
            - quarterly_burn m * (real_of_int (current_date - start_date) / 90)) 0
   \<and> (initial_net_cash m = 1.50 \<and> quarterly_burn m = 0.10 \<and> warning_ratio m = 1.5
          \<and> current_date - start_date = 450
       \<longrightarrow> estimate_cash_at_date m start_date current_date = 1.00
          \<and> (is_weakened (warning (snd (check m current_date price start_date)))
               \<longleftrightarrow> price / estimate_cash_at_date m start_date current_date > 1.5))"
proof (intro conjI impI)
  show "estimate_cash_at_date m start_date current_date
     = max (initial_net_cash m
            - quarterly_burn m * (real_of_int (current_date - start_date) / 90)) 0"
    by (simp add: estimate_cash_at_date_def)
next
  assume a: "initial_net_cash m = 1.50 \<and> quarterly_burn m = 0.10 \<and> warning_ratio m = 1.5
          \<and> current_date - start_date = 450"
  then show e: "estimate_cash_at_date m start_date current_date = 1.00"
    using estimate_450 by simp
  show "is_weakened (warning (snd (check m current_date price start_date)))
               \<longleftrightarrow> price / estimate_cash_at_date m start_date current_date > 1.5"
    using check_weakened_450 [of m start_date current_date price] a e by simp
qed

theorem cash_floor_estimate_and_warning_witness:
  "estimate_cash_at_date (CashFloorMonitor_init 1.50 0.10) 0 450 = 1
   \<and> is_weakened (warning (snd (check (CashFloorMonitor_init 1.50 0.10) 450 2 0)))
   \<and> \<not> is_weakened (warning (snd (check (CashFloorMonitor_init 1.50 0.10) 450 (3/2) 0)))"
  using cash_floor_estimate_and_warning [of "CashFloorMonitor_init 1.50 0.10" 0 450 2]
        cash_floor_estimate_and_warning [of "CashFloorMonitor_init 1.50 0.10" 0 450 "3/2"]
  by (simp add: CashFloorMonitor_init_def)

subsection \<open>Expiration and assignment\<close>

text \<open>
  C6. With a position open, \<open>check_expiration\<close> returns nothing and leaves the state as it
  is before the expiration date. From the expiration date on, a spot at or above the
  strike sets the shares to 0, clears the position, increments the assignment counter
  and appends a CALLED_AWAY trade; a spot below the strike clears the position, keeps
  the shares and appends an EXPIRE trade.
\<close>

theorem check_expiration_cases:
  assumes "position s = Some pos"
  shows "(current_date < expiration pos \<longrightarrow>
            check_expiration s current_date spot = (s, None))
       \<and> (current_date \<ge> expiration pos \<and> spot \<ge> strike pos \<longrightarrow>
            (\<exists>s' t. check_expiration s current_date spot = (s', Some t)
               \<and> shares_held s' = 0 \<and> position s' = None
               \<and> times_called_away s' = times_called_away s + 1
               \<and> trades s' = trades s @ [t] \<and> tr_action t = CALLED_AWAY
               \<and> tr_date t = current_date \<and> tr_strike t = Some (strike pos)))
       \<and> (current_date \<ge> expiration pos \<and> spot < strike pos \<longrightarrow>
            (\<exists>s' t. check_expiration s current_date spot = (s', Some t)
               \<and> shares_held s' = shares_held s \<and> position s' = None
               \<and> times_called_away s' = times_called_away s
               \<and> trades s' = trades s @ [t] \<and> tr_action t = EXPIRE
               \<and> tr_date t = current_date \<and> tr_strike t = Some (strike pos)))"
  using assms by (simp add: check_expiration_def Let_def)

theorem check_expiration_cases_witness:
  "check_expiration demo_strategy 29 3 = (demo_strategy, None)
   \<and> shares_held (fst (check_expiration demo_strategy 30 (5/2))) = 0
   \<and> map_option tr_action (snd (check_expiration demo_strategy 30 (5/2))) = Some CALLED_AWAY
   \<and> shares_held (fst (check_expiration demo_strategy 30 2)) = 1000
   \<and> map_option tr_action (snd (check_expiration demo_strategy 30 2)) = Some EXPIRE"
proof -
  have p: "position demo_strategy = Some demo_position"
    by (simp add: demo_strategy_def)
  have e: "expiration demo_position = 30" "strike demo_position = 5/2"
    by (simp_all add: demo_position_def)
  have h: "shares_held demo_strategy = 1000" by (simp add: demo_strategy_def)
  show ?thesis
    using check_expiration_cases [OF p, of 29 3]
          check_expiration_cases [OF p, of 30 "5/2"]
          check_expiration_cases [OF p, of 30 2]
    by (auto simp: e h)
qed

subsection \<open>Selling a call and the roll test\<close>

lemma sell_call_position:
  assumes "sell_call s d S iv dte_arg = Inr (s', t)"
  shows "\<exists>pos. position s' = Some pos
           \<and> contracts pos = shares_held s div 100
           \<and> expiration pos = d + (case dte_arg of None \<Rightarrow> target_dte (config s) | Some n \<Rightarrow> n)
           \<and> entry_date pos = d
           \<and> shares_held s' = shares_held s \<and> config s' = config s
           \<and> times_called_away s' = times_called_away s
           \<and> trades s' = trades s @ [t] \<and> tr_action t = SELL_CALL
           \<and> premium t = premium_received pos"
  using assms
  by (auto simp: sell_call_def Let_def split: sum.splits prod.splits)


text \<open>
  Under the default configuration a spot of 5 leaves no candidate above \<open>5 * 1.02\<close>, so the
  minimum strike 2.50 is selected without pricing any candidate.
\<close>

lemma select_strike_spot5:
  "select_strike default_config 5 iv dte
     = Inr (5/2, black_scholes_call 5 (5/2) (real_of_int dte / 365) (9/200) iv)"
  by (simp add: select_strike_def default_config_def)





subsection \<open>Volatility estimator\<close>

lemma iv_loop_body_eq:
  "iv_loop_body lr w p a i = a[i + 1 := iv_value lr w p i]"
  by (simp add: iv_loop_body_def iv_value_def Let_def)

lemma length_foldl_iv [simp]:
  "length (foldl (iv_loop_body lr w p) a is) = length a"
  by (induction "is" arbitrary: a) (simp_all add: iv_loop_body_eq)

lemma foldl_iv_nth:
  "j < length a \<Longrightarrow>
   foldl (iv_loop_body lr w p) a is ! j
     = (if \<exists>i\<in>set is. i + 1 = j then iv_value lr w p (j - 1) else a ! j)"
proof (induction "is" arbitrary: a)
  case Nil
  then show ?case by simp
next
  case (Cons i "is")
  have len: "j < length (iv_loop_body lr w p a i)"
    using Cons.prems by (simp add: iv_loop_body_eq)
  show ?case
    using Cons.IH [OF len] Cons.prems
    by (auto simp: iv_loop_body_eq nth_list_update)
qed

lemma length_log_returns_of [simp]:
  "length (log_returns_of prices) = length prices - 1"
  by (simp add: log_returns_of_def)

lemma log_returns_of_positive:
  assumes "\<forall>x\<in>set prices. x > 0"
  shows "None \<notin> set (log_returns_of prices)"
proof -
  have "log_return b a \<noteq> None" if "(b, a) \<in> set (zip (tl prices) (butlast prices))" for a b
  proof -
    have "b \<in> set (tl prices)" "a \<in> set (butlast prices)"
      using that by (auto dest: set_zip_leftD set_zip_rightD)
    then have "b \<in> set prices" "a \<in> set prices"
      by (auto dest: in_set_butlastD) (cases prices; simp)
    then have "a > 0" "b > 0" using assms by auto
    then show ?thesis by (simp add: log_return_def)
  qed
  then show ?thesis
    by (force simp: log_returns_of_def)
qed

lemma np_std_Some:
  assumes "xs \<noteq> []" "None \<notin> set xs"
  shows "\<exists>v. np_std xs = Some v"
  using assms by (simp add: np_std_def Let_def)

lemma iv_value_Some:
  assumes "None \<notin> set lr" "1 \<le> w" "w \<le> i" "i \<le> length lr"
  shows "\<exists>v. iv_value lr w p i = Some v"
proof -
  have "length (slice lr (i - w) i) = w"
    using assms by (simp add: slice_def)
  then have ne: "slice lr (i - w) i \<noteq> []" using assms(2) by auto
  have "set (slice lr (i - w) i) \<subseteq> set lr"
    by (metis slice_def set_drop_subset set_take_subset subset_trans)
  then have "None \<notin> set (slice lr (i - w) i)" using assms(1) by blast
  from np_std_Some [OF ne this] show ?thesis
    by (auto simp: iv_value_def)
qed

lemma np_maximum_floor: "np_maximum x lo = Some v \<Longrightarrow> v \<ge> lo"
  by (auto simp: np_maximum_def)

lemma np_maximum_None [simp]: "np_maximum x lo = None \<longleftrightarrow> x = None"
  by (simp add: np_maximum_def)

lemma np_maximum_map_None:
  "None \<in> set (map (\<lambda>x. np_maximum x lo) xs) \<longleftrightarrow> None \<in> set xs"
  by (induction xs) (auto simp: np_maximum_def)

lemma ivh_length [simp]:
  "length (implied_volatility_from_history prices w p) = length prices"
  by (auto simp: implied_volatility_from_history_def Let_def)

lemma ivh_floor:
  "Some v \<in> set (implied_volatility_from_history prices w p) \<Longrightarrow> v \<ge> 0.30"
  by (auto simp: implied_volatility_from_history_def Let_def dest: np_maximum_floor[OF sym])

lemma ivh_short:
  assumes "length prices \<le> w + 1"
  shows "implied_volatility_from_history prices w p = replicate (length prices) None"
  using assms
  by (simp add: implied_volatility_from_history_def Let_def np_maximum_def)

lemma ivh_valid:
  assumes w: "1 \<le> w" and pos: "\<forall>x\<in>set prices. x > 0" and len: "w + 2 \<le> length prices"
  shows "None \<notin> set (implied_volatility_from_history prices w p)"
proof -
  let ?lr = "log_returns_of prices"
  let ?a0 = "replicate (length prices) (None :: real option)"
  let ?a1 = "foldl (iv_loop_body ?lr w p) ?a0 [w ..< length ?lr]"
  have nn: "None \<notin> set ?lr" using log_returns_of_positive [OF pos] .
  have late: "\<exists>v. ?a1 ! j = Some v" if "w + 1 \<le> j" "j < length prices" for j
  proof -
    have "\<exists>i\<in>set [w ..< length ?lr]. i + 1 = j"
      using that by (intro bexI [of _ "j - 1"]) auto
    then have "?a1 ! j = iv_value ?lr w p (j - 1)"
      using foldl_iv_nth [of j ?a0 ?lr w p "[w ..< length ?lr]"] that by simp
    moreover have "\<exists>v. iv_value ?lr w p (j - 1) = Some v"
      using that w by (intro iv_value_Some [OF nn]) auto
    ultimately show ?thesis by simp
  qed
  have fv: "w + 1 < length ?a1" using len by simp
  let ?a2 = "replicate (w + 1) (?a1 ! (w + 1)) @ drop (w + 1) ?a1"
  have "None \<notin> set ?a2"
  proof
    assume "None \<in> set ?a2"
    then consider "?a1 ! (w + 1) = None" | "None \<in> set (drop (w + 1) ?a1)" by auto
    then show False
    proof cases
      case 1
      then show False using late [of "w + 1"] len by simp
    next
      case 2
      then obtain k where "k < length (drop (w + 1) ?a1)" "drop (w + 1) ?a1 ! k = None"
        by (metis in_set_conv_nth)
      then have "?a1 ! (w + 1 + k) = None" "w + 1 + k < length prices" by auto
      then show False using late [of "w + 1 + k"] by simp
    qed
  qed
  then have notin: "None \<notin> set (map (\<lambda>x. np_maximum x 0.30) ?a2)"
    by (simp only: np_maximum_map_None not_False_eq_True)
  have eq: "implied_volatility_from_history prices w p
              = map (\<lambda>x. np_maximum x 0.30) ?a2"
    using fv by (simp add: implied_volatility_from_history_def Let_def)
  show ?thesis
    unfolding eq by (rule notin)
qed

text \<open>
  C7. The estimator returns a series of the length of its input in which no
  value is below 0.30. For a window of at least one day and positive prices, no value is
  missing when the series is longer than the window plus one; a series no longer than
  the window plus one comes back with every value missing (NaN).
\<close>

theorem implied_volatility_floor_and_validity:
  "length (implied_volatility_from_history prices w p) = length prices
   \<and> (\<forall>v. Some v \<in> set (implied_volatility_from_history prices w p) \<longrightarrow> v \<ge> 0.30)
   \<and> (1 \<le> w \<and> (\<forall>x\<in>set prices. x > 0) \<and> w + 2 \<le> length prices
        \<longrightarrow> None \<notin> set (implied_volatility_from_history prices w p))
   \<and> (length prices \<le> w + 1
        \<longrightarrow> implied_volatility_from_history prices w p = replicate (length prices) None)"
  using ivh_floor ivh_valid ivh_short by auto

theorem implied_volatility_short_series_counterexample:
  "implied_volatility_from_history [2.00, 2.10] 20 1.3 = [None, None]"
  by (simp add: implied_volatility_from_history_def log_returns_of_def np_maximum_def)

theorem implied_volatility_floor_and_validity_witness:
  "length (implied_volatility_from_history [1, 1, 1] 1 1.3) = 3
   \<and> None \<notin> set (implied_volatility_from_history [1, 1, 1] 1 1.3)
   \<and> implied_volatility_from_history [1, 1] 1 1.3 = [None, None]"
  using implied_volatility_floor_and_validity [of "[1, 1, 1]" 1 "1.3"]
        implied_volatility_floor_and_validity [of "[1, 1]" 1 "1.3"]
  by (simp add: numeral_2_eq_2)

subsection \<open>Strike selection and the premium of a sale\<close>

lemma select_strike_loop_Cons:
  "select_strike_loop cfg S iv dte (a # ks) best =
     (if a < min_strike cfg \<or> a \<le> S * 1.02 \<or> net_price_of cfg S iv dte a < 0.01
      then select_strike_loop cfg S iv dte ks best
      else if S = 0 \<or> dte = 0 then Inl ZeroDivisionError
      else select_strike_loop cfg S iv dte ks
             (if score_of cfg S iv dte a > snd best then (a, score_of cfg S iv dte a) else best))"
  by (simp add: net_price_of_def score_of_def Let_def)



lemma select_strike_spot2_dte0:
  "select_strike default_config 2 iv 0 = Inr (5/2, 0)"
  by (simp add: select_strike_def default_config_def black_scholes_call_def
        apply_bid_ask_slippage_def Let_def)

lemma sell_call_spot2_dte0:
  "sell_call (small_strategy 1000) 0 2 iv (Some 0) =
     Inr (let pos = \<lparr> strike = 5/2, expiration = 0, premium_received = - (13/2),
                      contracts = 10, entry_date = 0, entry_stock_price = 2 \<rparr>;
              tr = \<lparr> tr_date = 0, tr_action = SELL_CALL, tr_strike = Some (5/2),
                     tr_expiration = Some 0, premium = - (13/2), tr_stock_price = 2,
                     tr_shares = 1000, tr_details = Sold 10 (5/2) 0 0 (- (13/2)) iv \<rparr>
          in ((small_strategy 1000)\<lparr>position := Some pos,
                total_premium_collected := - (13/2),
                total_commissions := 13/2,
                trades := [tr]\<rparr>, tr))"
  by (simp add: sell_call_def small_strategy_def CoveredCallStrategy_init_def
        select_strike_spot2_dte0 Let_def)
     (simp add: default_config_def apply_bid_ask_slippage_def)

text \<open>
  C2. A call can be sold at a net premium per share below 0.01. \<open>select_strike\<close> rejects
  a candidate below one cent, but when it rejects all of them \<open>sell_call\<close> sells the
  minimum strike at whatever it prices to, so only a sale at the minimum strike can be
  below one cent (\<open>sell_call_net_premium\<close>). Under the default configuration with 1000
  shares and a spot of 2.00, a call that expires on the day of sale is sold at the
  minimum strike 2.50 for a net premium of 0 per share and a total of -6.50.
\<close>

theorem sell_call_fallback_below_one_cent:
  "map_sum id (tr_details \<circ> snd) (sell_call (small_strategy 1000) 0 2 0.30 (Some 0))
     = Inr (Sold 10 2.50 0 0 (- 6.50) 0.30)
   \<and> min_strike (config (small_strategy 1000)) = 2.50"
  by (simp add: sell_call_spot2_dte0 Let_def)
     (simp add: small_strategy_def CoveredCallStrategy_init_def default_config_def)

subsection \<open>Signs of the recorded amounts\<close>




lemma roll_buyback_trade_fields [simp]:
  "tr_action (roll_buyback_trade s pos d S iv) = ROLL"
  "tr_date (roll_buyback_trade s pos d S iv) = d"
  by (simp_all add: roll_buyback_trade_def Let_def)










subsection \<open>The day loop, block by block\<close>

lemma select_strike_loop_error:
  "select_strike_loop cfg S iv dte ks best = Inl e \<Longrightarrow> e = ZeroDivisionError"
proof (induction ks arbitrary: best)
  case Nil
  then show ?case by simp
next
  case (Cons a ks)
  then show ?case
    by (simp only: select_strike_loop_Cons split: if_splits) auto
qed

lemma select_strike_error:
  "select_strike cfg S iv dte = Inl e \<Longrightarrow> e = ZeroDivisionError"
  by (auto simp: select_strike_def split: sum.splits dest: select_strike_loop_error)

lemma sell_call_error:
  "sell_call s d S iv dte_arg = Inl e \<Longrightarrow> e = ZeroDivisionError"
  by (auto simp: sell_call_def Let_def split: sum.splits dest: select_strike_error)

lemma open_stock_position_fields:
  assumes "open_stock_position s d S = (s', t)"
  shows "shares_held s' = shares (config s)" "position s' = position s"
    "config s' = config s" "times_called_away s' = times_called_away s"
    "trades s' = trades s @ [t]" "tr_action t = BUY_STOCK"
    "premium t = - S * real_of_int (shares (config s))"
  using assms by (auto simp: open_stock_position_def Let_def)

lemma check_expiration_config:
  "check_expiration s d S = (s', r) \<Longrightarrow> config s' = config s"
  by (auto simp: check_expiration_def Let_def split: option.splits if_splits)

text \<open>The entry block either does nothing or buys the lot and sells the first call.\<close>

lemma entry_block_eq:
  "entry_block cfg i d S iv (s, c) =
     (if shares_held s = 0 \<and> position s = None \<and> (i = 0 \<or> times_called_away s > 0)
      then (case sell_call (fst (open_stock_position s d S)) d S iv None of
              Inl e \<Rightarrow> Inl e
            | Inr (s2, sell_trade) \<Rightarrow>
                Inr (s2, c - S * real_of_int (shares cfg) + premium sell_trade))
      else Inr (s, c))"
  by (auto simp add: entry_block_def Let_def case_prod_beta)

lemma entry_block_skip:
  assumes "\<not> (shares_held s = 0 \<and> position s = None \<and> (i = 0 \<or> times_called_away s > 0))"
  shows "entry_block cfg i d S iv (s, c) = Inr (s, c)"
  unfolding entry_block_eq using assms by (rule if_not_P)

lemma entry_block_enter:
  assumes "shares_held s = 0 \<and> position s = None \<and> (i = 0 \<or> times_called_away s > 0)"
  shows "entry_block cfg i d S iv (s, c) =
           (case sell_call (fst (open_stock_position s d S)) d S iv None of
              Inl e \<Rightarrow> Inl e
            | Inr (s2, sell_trade) \<Rightarrow>
                Inr (s2, c - S * real_of_int (shares cfg) + premium sell_trade))"
  unfolding entry_block_eq using assms by (rule if_P)

text \<open>The four ways through the expiration block.\<close>

lemma expiration_block_None:
  assumes "position s = None"
  shows "expiration_block d S iv (s, c) = Inr (s, c)"
  using assms by (simp add: expiration_block_def)

lemma expiration_block_idle:
  assumes "position s = Some pos" "d < expiration pos"
  shows "expiration_block d S iv (s, c) = Inr (s, c)"
  using assms by (simp add: expiration_block_def check_expiration_def)

lemma expiration_block_called_away:
  assumes "position s = Some pos" "expiration pos \<le> d" "strike pos \<le> S"
  shows "expiration_block d S iv (s, c) =
           Inr (fst (check_expiration s d S),
                c + real_of_int (shares (config s)) * strike pos)"
    and "\<exists>t. check_expiration s d S
               = (s\<lparr>times_called_away := times_called_away s + 1, shares_held := 0,
                     position := None, trades := trades s @ [t]\<rparr>, Some t)
             \<and> tr_action t = CALLED_AWAY \<and> tr_strike t = Some (strike pos) \<and> premium t = 0"
  using assms by (simp_all add: expiration_block_def check_expiration_def Let_def)

lemma expiration_block_expire:
  assumes "position s = Some pos" "expiration pos \<le> d" "S < strike pos"
  shows "expiration_block d S iv (s, c) =
           (case sell_call (fst (check_expiration s d S)) d S iv None of
              Inl e \<Rightarrow> Inl e
            | Inr (s2, sell_trade) \<Rightarrow> Inr (s2, c + premium sell_trade))"
    and "\<exists>t. check_expiration s d S
               = (s\<lparr>position := None, trades := trades s @ [t]\<rparr>, Some t)
             \<and> tr_action t = EXPIRE \<and> premium t = 0"
  using assms
  by (simp_all add: expiration_block_def check_expiration_def Let_def split: sum.splits)

lemma entry_block_error:
  "entry_block cfg i d S iv sc = Inl e \<Longrightarrow> e = ZeroDivisionError"
  by (cases sc)
     (auto simp: entry_block_eq split: if_splits sum.splits dest: sell_call_error)

lemma expiration_block_error:
  "expiration_block d S iv sc = Inl e \<Longrightarrow> e = ZeroDivisionError"
proof (cases sc)
  case (Pair s c)
  assume a: "expiration_block d S iv sc = Inl e"
  show ?thesis
  proof (cases "position s")
    case None
    then show ?thesis using a Pair by (simp add: expiration_block_None)
  next
    case (Some pos)
    consider "d < expiration pos" | "expiration pos \<le> d" "strike pos \<le> S"
      | "expiration pos \<le> d" "S < strike pos" by linarith
    then show ?thesis
    proof cases
      case 1
      then show ?thesis using a Pair Some by (simp add: expiration_block_idle)
    next
      case 2
      then show ?thesis using a Pair Some by (simp add: expiration_block_called_away)
    next
      case 3
      then show ?thesis using a Pair Some
        by (auto simp: expiration_block_expire split: sum.splits dest: sell_call_error)
    qed
  qed
qed

lemma day_step_error:
  "day_step cfg start ivs row st = Inl e \<Longrightarrow> e = ZeroDivisionError"
  by (auto simp: day_step_def Let_def split: prod.splits sum.splits
        dest: entry_block_error expiration_block_error)

lemma run_loop_error:
  "run_loop cfg start ivs rows st = Inl e \<Longrightarrow> e = ZeroDivisionError"
  by (induction rows arbitrary: st) (auto split: sum.splits dest: day_step_error)

subsection \<open>The data-sufficiency error\<close>

lemma sorted_flat_prices: "sorted (map fst (flat_prices n p))"
proof -
  have "map fst (flat_prices n p) = map int [0 ..< n]"
    by (simp add: flat_prices_def comp_def)
  moreover have "sorted (map int [0 ..< n])"
    by (simp add: sorted_map sorted_wrt_iff_nth_less)
  ultimately show ?thesis by simp
qed

lemma restrict_window_flat [simp]:
  "restrict_window (flat_prices n p) None None = flat_prices n p"
  by (simp add: restrict_window_def sort_key_id_if_sorted sorted_flat_prices)

lemma length_flat_prices [simp]: "length (flat_prices n p) = n"
  by (simp add: flat_prices_def)

text \<open>
  C8. A run fails with the insufficient-data error exactly when fewer than 30 rows remain
  after the table is sorted and restricted to the start/end window; with 30 rows or more
  it does not raise that error (whatever else the day loop may raise).
\<close>

theorem run_insufficient_data_iff:
  "run cfg prices start_date end_date = Inl ValueError_insufficient_data
     \<longleftrightarrow> length (restrict_window prices start_date end_date) < 30"
  by (auto simp: run_def Let_def split: sum.splits dest: run_loop_error)

theorem run_insufficient_data_iff_witness:
  "run default_config (flat_prices 29 2) None None = Inl ValueError_insufficient_data
   \<and> run default_config (flat_prices 30 2) None None \<noteq> Inl ValueError_insufficient_data
   \<and> run default_config (flat_prices 40 2) (Some 5) (Some 33) = Inl ValueError_insufficient_data"
proof -
  have "length (restrict_window (flat_prices 40 2) (Some 5) (Some 33)) = 29"
    by code_simp
  then show ?thesis
    using run_insufficient_data_iff [of default_config "flat_prices 29 2" None None]
      run_insufficient_data_iff [of default_config "flat_prices 30 2" None None]
      run_insufficient_data_iff [of default_config "flat_prices 40 2" "Some 5" "Some 33"]
    by simp
qed

subsection \<open>One lot, one position\<close>

lemma check_expiration_lot:
  assumes "check_expiration s d S = (s', r)" "position s \<noteq> None"
  shows "config s' = config s" "position s' = None \<or> (s' = s \<and> r = None)"
    "shares_held s' = shares_held s \<or> (shares_held s' = 0 \<and> position s' = None)"
    "\<And>t. r = Some t \<Longrightarrow> tr_action t = EXPIRE \<Longrightarrow>
        shares_held s' = shares_held s \<and> position s' = None"
  using assms
  by (auto simp: check_expiration_def Let_def split: option.splits if_splits)

lemma engine_reach_strong:
  "engine_reach cfg ph s \<Longrightarrow>
     config s = cfg \<and> lot_invariant cfg s
     \<and> (ph = After_buy \<or> ph = After_expire
          \<longrightarrow> shares_held s = shares cfg \<and> position s = None)"
proof (induction rule: engine_reach.induct)
  case reach_init
  then show ?case
    by (simp add: CoveredCallStrategy_init_def lot_invariant_def)
next
  case (reach_buy s i d S s' t)
  then show ?case
    using open_stock_position_fields [of s d S s' t]
    by (simp add: lot_invariant_def)
next
  case (reach_first_sale s d S iv s' t)
  then show ?case
    using sell_call_position [of s d S iv None s' t]
    by (auto simp: lot_invariant_def)
next
  case (reach_no_entry s i)
  then show ?case by simp
next
  case (reach_no_position s)
  then show ?case by simp
next
  case (reach_not_expired s d S s')
  then show ?case
    using check_expiration_lot [of s d S s' None]
    by (auto simp: lot_invariant_def)
next
  case (reach_called_away s d S s' t)
  then show ?case
    using check_expiration_lot [of s d S s' "Some t"]
    by (auto simp: lot_invariant_def)
next
  case (reach_expired s d S s' t)
  then show ?case
    using check_expiration_lot [of s d S s' "Some t"]
    by (auto simp: lot_invariant_def)
next
  case (reach_replacement s d S iv s' t)
  then show ?case
    using sell_call_position [of s d S iv None s' t]
    by (auto simp: lot_invariant_def)
qed

text \<open>
  The day loop stays inside the step relation: the strategy after each day of \<open>run_loop\<close>
  is reachable at \<open>Day_start\<close>.
\<close>

lemma entry_block_reach:
  assumes "engine_reach cfg Day_start s" "entry_block cfg' i d S iv (s, c) = Inr (s', c')"
  shows "engine_reach cfg Before_expiration_check s'"
proof (cases "shares_held s = 0 \<and> position s = None \<and> (i = 0 \<or> times_called_away s > 0)")
  case True
  obtain s1 t1 where o: "open_stock_position s d S = (s1, t1)" by fastforce
  have b: "engine_reach cfg After_buy s1"
    using reach_buy [OF assms(1) True o] .
  from assms(2) obtain t2 where "sell_call s1 d S iv None = Inr (s', t2)"
    unfolding entry_block_enter [OF True] using o by (auto split: sum.splits)
  from reach_first_sale [OF b this] show ?thesis .
next
  case False
  then have "s' = s" using assms(2) by (simp add: entry_block_skip)
  then show ?thesis using reach_no_entry [OF assms(1) False] by simp
qed

lemma expiration_block_reach:
  assumes r: "engine_reach cfg Before_expiration_check s"
    and e: "expiration_block d S iv (s, c) = Inr (s', c')"
  shows "engine_reach cfg Day_start s'"
proof (cases "position s")
  case None
  then have "s' = s" using e by (simp add: expiration_block_None)
  then show ?thesis using reach_no_position [OF r None] by simp
next
  case (Some pos)
  then have pn: "position s \<noteq> None" by simp
  consider "d < expiration pos" | "expiration pos \<le> d" "strike pos \<le> S"
    | "expiration pos \<le> d" "S < strike pos" by linarith
  then show ?thesis
  proof cases
    case 1
    then have "s' = s" using e Some by (simp add: expiration_block_idle)
    moreover have "check_expiration s d S = (s, None)"
      using Some 1 by (simp add: check_expiration_def)
    ultimately show ?thesis using reach_not_expired [OF r pn] by simp
  next
    case 2
    from expiration_block_called_away(2) [OF Some 2]
    obtain s1 t where ce: "check_expiration s d S = (s1, Some t)" "tr_action t = CALLED_AWAY"
      by blast
    have "s' = s1"
      using e ce unfolding expiration_block_called_away(1) [OF Some 2] by simp
    with ce have "check_expiration s d S = (s', Some t)" "tr_action t = CALLED_AWAY"
      by simp_all
    then show ?thesis using reach_called_away [OF r pn] by blast
  next
    case 3
    from expiration_block_expire(2) [OF Some 3]
    obtain s1 t where c: "check_expiration s d S = (s1, Some t)" "tr_action t = EXPIRE"
      by blast
    have x: "engine_reach cfg After_expire s1"
      using reach_expired [OF r pn c] .
    from e obtain t2 where "sell_call s1 d S iv None = Inr (s', t2)"
      unfolding expiration_block_expire(1) [OF Some 3] using c by (auto split: sum.splits)
    from reach_replacement [OF x this] show ?thesis .
  qed
qed

lemma day_step_reach:
  assumes "engine_reach cfg Day_start (strategy st)"
    and "day_step cfg' start ivs row st = Inr st'"
  shows "engine_reach cfg Day_start (strategy st')"
proof -
  obtain i d S where row: "row = (i, d, S)" by (cases row) auto
  from assms(2) obtain s1 c1 s2 c2 where
    a: "entry_block cfg' i d S (iv_at ivs i) (strategy st, cash st) = Inr (s1, c1)"
    and b: "expiration_block d S (iv_at ivs i) (s1, c1) = Inr (s2, c2)"
    and c: "strategy st' = s2"
    by (auto simp: day_step_def row Let_def split: sum.splits prod.splits)
  from expiration_block_reach [OF entry_block_reach [OF assms(1) a] b] c
  show ?thesis by simp
qed

lemma run_loop_reach:
  assumes "engine_reach cfg Day_start (strategy st)"
    and "run_loop cfg' start ivs rows st = Inr st'"
  shows "engine_reach cfg Day_start (strategy st')"
  using assms
proof (induction rows arbitrary: st)
  case Nil
  then show ?case by simp
next
  case (Cons row rows)
  from Cons.prems(2) obtain st1 where
    d: "day_step cfg' start ivs row st = Inr st1"
    and l: "run_loop cfg' start ivs rows st1 = Inr st'"
    by (auto split: sum.splits)
  from Cons.IH [OF day_step_reach [OF Cons.prems(1) d] l] show ?case .
qed

lemma run_loop_lot_invariant:
  assumes "run_loop cfg start ivs rows (initial_state cfg df) = Inr st'"
  shows "lot_invariant cfg (strategy st')"
proof -
  have "engine_reach cfg Day_start (strategy (initial_state cfg df))"
    by (simp add: initial_state_def reach_init)
  from engine_reach_strong [OF run_loop_reach [OF this assms]] show ?thesis by simp
qed

text \<open>
  C3. In every state that the engine reaches by its fixed order of operations, at the
  start of a day and between any two operations of a day, \<open>shares_held\<close> is 0 or the
  configured lot size, and the position (at most one, by its type) is open only while
  the shares held are one lot.
\<close>

theorem engine_lot_invariant:
  assumes "engine_reach cfg ph s"
  shows "(shares_held s = 0 \<or> shares_held s = shares cfg)
       \<and> (position s \<noteq> None \<longrightarrow> shares_held s = shares cfg)"
  using engine_reach_strong [OF assms] by (simp add: lot_invariant_def)

theorem engine_lot_invariant_witness:
  "shares_held (fst (open_stock_position (CoveredCallStrategy_init default_config) 0 2))
     = shares default_config
   \<and> position (fst (open_stock_position (CoveredCallStrategy_init default_config) 0 2)) = None"
proof -
  let ?s0 = "CoveredCallStrategy_init default_config"
  obtain s1 t1 where o: "open_stock_position ?s0 0 2 = (s1, t1)" by fastforce
  have c: "shares_held ?s0 = 0 \<and> position ?s0 = None \<and> ((0::nat) = 0 \<or> times_called_away ?s0 > 0)"
    by (simp add: CoveredCallStrategy_init_def)
  have r: "engine_reach default_config After_buy s1"
    using reach_buy [OF reach_init c o] .
  have "shares_held s1 \<noteq> 0"
    using o by (auto simp: open_stock_position_def CoveredCallStrategy_init_def
        default_config_def Let_def)
  moreover have "position s1 = None"
    using o by (auto simp: open_stock_position_def CoveredCallStrategy_init_def Let_def)
  ultimately show ?thesis
    using engine_lot_invariant [OF r] o by simp
qed

subsection \<open>Cash, trade log and equity\<close>

lemma cash_flows_snoc [simp]: "cash_flows (ts @ [t]) = cash_flows ts + premium t"
  by (simp add: cash_flows_def)

lemma assignment_proceeds_snoc [simp]:
  "assignment_proceeds cfg (ts @ [t]) =
     assignment_proceeds cfg ts
     + (if tr_action t = CALLED_AWAY
        then real_of_int (shares cfg) * (case tr_strike t of Some k \<Rightarrow> k | None \<Rightarrow> 0) else 0)"
  by (simp add: assignment_proceeds_def)




lemma equity_snapshot_fields [simp]:
  "Equity (equity_snapshot cfg d S iv s c)
     = c + StockValue (equity_snapshot cfg d S iv s c)
         - OptionLiability (equity_snapshot cfg d S iv s c)"
  "Cash (equity_snapshot cfg d S iv s c) = c"
  "StockValue (equity_snapshot cfg d S iv s c) = real_of_int (shares_held s) * S"
  "eq_Date (equity_snapshot cfg d S iv s c) = d"
  "position s = None \<Longrightarrow> OptionLiability (equity_snapshot cfg d S iv s c) = 0"
  by (simp_all add: equity_snapshot_def Let_def)

lemma day_step_result:
  assumes "day_step cfg start ivs (i, d, S) st = Inr st'"
  shows "\<exists>s1 c1.
           entry_block cfg i d S (iv_at ivs i) (strategy st, cash st) = Inr (s1, c1)
         \<and> expiration_block d S (iv_at ivs i) (s1, c1) = Inr (strategy st', cash st')
         \<and> equity_curve st' = equity_curve st
              @ [equity_snapshot cfg d S (iv_at ivs i) (strategy st') (cash st')]"
  using assms
  by (auto simp: day_step_def Let_def split: sum.splits prod.splits)




subsection \<open>Running the day loop on flat price tables\<close>

lemma day_step_idle:
  assumes "position (strategy st) = Some pos" "d < expiration pos"
  shows "\<exists>st'. day_step cfg start ivs (i, d, S) st = Inr st'
           \<and> strategy st' = strategy st \<and> cash st' = cash st"
proof -
  have "entry_block cfg i d S (iv_at ivs i) (strategy st, cash st) = Inr (strategy st, cash st)"
    using assms(1) by (simp add: entry_block_skip)
  moreover have "expiration_block d S (iv_at ivs i) (strategy st, cash st)
                   = Inr (strategy st, cash st)"
    using assms by (rule expiration_block_idle)
  ultimately show ?thesis
    by (simp add: day_step_def Let_def split: prod.splits)
qed

lemma run_loop_idle:
  assumes "position (strategy st) = Some pos"
    and "\<forall>row \<in> set rows. fst (snd row) < expiration pos"
  shows "\<exists>st'. run_loop cfg start ivs rows st = Inr st'
           \<and> strategy st' = strategy st \<and> cash st' = cash st"
  using assms
proof (induction rows arbitrary: st)
  case Nil
  then show ?case by simp
next
  case (Cons row rows)
  obtain i d S where row: "row = (i, d, S)" by (cases row) auto
  have "d < expiration pos" using Cons.prems(2) row by simp
  from day_step_idle [OF Cons.prems(1) this, of cfg start ivs i S]
  obtain st1 where d1: "day_step cfg start ivs row st = Inr st1"
    and s1: "strategy st1 = strategy st" "cash st1 = cash st"
    unfolding row by blast
  have "position (strategy st1) = Some pos" using s1 Cons.prems(1) by simp
  from Cons.IH [OF this] Cons.prems(2)
  obtain st' where "run_loop cfg start ivs rows st1 = Inr st'"
    "strategy st' = strategy st1" "cash st' = cash st1" by auto
  then show ?case using d1 s1 by simp
qed


lemma day_step_entry:
  assumes c: "shares_held (strategy st) = 0 \<and> position (strategy st) = None
              \<and> (i = 0 \<or> times_called_away (strategy st) > 0)"
    and sc: "sell_call (fst (open_stock_position (strategy st) d S)) d S (iv_at ivs i) None
               = Inr (s2, t2)"
    and dte: "target_dte (config (strategy st)) > 0"
  shows "\<exists>st'. day_step cfg start ivs (i, d, S) st = Inr st' \<and> strategy st' = s2"
proof -
  let ?iv = "iv_at ivs i"
  obtain s1 t1 where o: "open_stock_position (strategy st) d S = (s1, t1)" by fastforce
  have e: "entry_block cfg i d S ?iv (strategy st, cash st)
             = Inr (s2, cash st - S * real_of_int (shares cfg) + premium t2)"
    unfolding entry_block_enter [OF c] using sc by simp
  from sell_call_position [OF sc] obtain pos where
    p: "position s2 = Some pos" "expiration pos = d + target_dte (config (fst (open_stock_position (strategy st) d S)))"
    by auto
  have "config (fst (open_stock_position (strategy st) d S)) = config (strategy st)"
    using open_stock_position_fields(3) [OF o] o by simp
  then have "d < expiration pos" using p(2) dte by simp
  from expiration_block_idle [OF p(1) this]
  have "expiration_block d S ?iv (s2, cash st - S * real_of_int (shares cfg) + premium t2)
          = Inr (s2, cash st - S * real_of_int (shares cfg) + premium t2)" .
  with e show ?thesis
    by (simp add: day_step_def Let_def split: prod.splits)
qed


lemma rows_of_flat_prices:
  "rows_of (flat_prices n p) = map (\<lambda>i. (i, int i, p)) [0 ..< n]"
  by (simp add: rows_of_def flat_prices_def zip_map2 zip_same_conv_map)


lemma select_strike_loop_total:
  assumes "S \<noteq> 0" "dte \<noteq> 0"
  shows "\<exists>r. select_strike_loop cfg S iv dte ks best = Inr r"
proof (induction ks arbitrary: best)
  case Nil
  then show ?case by simp
next
  case (Cons a ks)
  show ?case
    unfolding select_strike_loop_Cons using assms Cons.IH by auto
qed

lemma sell_call_total:
  assumes "S \<noteq> 0" "target_dte (config s) \<noteq> 0"
  shows "\<exists>s' t. sell_call s d S iv None = Inr (s', t)"
proof -
  obtain k sc where
    "select_strike_loop (config s) S iv (target_dte (config s)) (strike_candidates (config s))
       (min_strike (config s), - 1) = Inr (k, sc)"
    using select_strike_loop_total [OF assms] by (metis surj_pair)
  then show ?thesis
    by (simp add: sell_call_def select_strike_def Let_def)
qed

lemma sell_call_spot5_strike:
  assumes "config s = default_config" "sell_call s d 5 iv None = Inr (s', t)"
  shows "\<exists>pos. position s' = Some pos \<and> strike pos = 5/2"
  using assms(2) by (auto simp: sell_call_def select_strike_spot5 assms(1) Let_def)

text \<open>The first day of a run under the default configuration.\<close>

lemma first_day_default:
  assumes "S \<noteq> 0"
  shows "\<exists>st1 tb ts pos.
           day_step default_config start ivs (0, d, S) (initial_state default_config df) = Inr st1
         \<and> trades (strategy st1) = [tb, ts] \<and> tr_action tb = BUY_STOCK \<and> tr_action ts = SELL_CALL
         \<and> position (strategy st1) = Some pos \<and> expiration pos = d + 30
         \<and> config (strategy st1) = default_config
         \<and> shares_held (strategy st1) = 1000
         \<and> (S = 5 \<longrightarrow> strike pos = 5/2)"
proof -
  let ?st0 = "initial_state default_config df"
  let ?s0 = "strategy ?st0"
  have s0: "?s0 = CoveredCallStrategy_init default_config"
    by (simp add: initial_state_def)
  have c: "shares_held ?s0 = 0 \<and> position ?s0 = None
             \<and> ((0::nat) = 0 \<or> times_called_away ?s0 > 0)"
    by (simp add: s0 CoveredCallStrategy_init_def)
  have cfg0: "config ?s0 = default_config"
    by (simp add: s0 CoveredCallStrategy_init_def)
  have dte: "target_dte default_config = 30" "shares default_config = 1000"
    by (simp_all add: default_config_def)
  obtain s1 tb where o: "open_stock_position ?s0 d S = (s1, tb)" by fastforce
  note f = open_stock_position_fields [OF o]
  have cfg1: "config s1 = default_config" using f(3) cfg0 by simp
  obtain s2 ts where sc: "sell_call s1 d S (iv_at ivs 0) None = Inr (s2, ts)"
    using sell_call_total [of S s1 d "iv_at ivs 0"] assms cfg1 dte by auto
  then have sc': "sell_call (fst (open_stock_position ?s0 d S)) d S (iv_at ivs 0) None
                    = Inr (s2, ts)"
    using o by simp
  have "target_dte (config ?s0) > 0" using cfg0 dte by simp
  from day_step_entry [OF c sc' this, of default_config start]
  obtain st1 where d1: "day_step default_config start ivs (0, d, S) ?st0 = Inr st1"
    and st1: "strategy st1 = s2" by blast
  from sell_call_position [OF sc] obtain pos where
    p: "position s2 = Some pos" "expiration pos = d + target_dte (config s1)"
       "shares_held s2 = shares_held s1" "config s2 = config s1"
       "trades s2 = trades s1 @ [ts]" "tr_action ts = SELL_CALL"
    by auto
  have tr: "trades s2 = [tb, ts]"
    using p(5) f(5) by (simp add: s0 CoveredCallStrategy_init_def)
  have sh: "shares_held s2 = 1000"
    using p(3) f(1) cfg0 dte by simp
  have k: "S = 5 \<longrightarrow> strike pos = 5/2"
    using sell_call_spot5_strike [OF cfg1, of d "iv_at ivs 0" s2 ts] sc p(1) by auto
  show ?thesis
    using d1 st1 tr f(6) p(6) p(1) p(2) p(4) cfg1 dte sh k by auto
qed

lemma flat_rows_before:
  "\<forall>row \<in> set (map (\<lambda>i. (i, int i, p)) [a ..< b]). fst (snd row) < int b"
  by auto

text \<open>
  Thirty flat days at 2.00 under the default configuration: the call sold on day 0
  expires on day 30, so from day 25 on \<open>should_roll\<close> answers true, and the log of the
  run holds the purchase and the first sale only.
\<close>

lemma run_loop_flat_30:
  "\<exists>st. run_loop default_config start ivs (rows_of (flat_prices 30 2))
            (initial_state default_config df) = Inr st
      \<and> map tr_action (trades (strategy st)) = [BUY_STOCK, SELL_CALL]
      \<and> (\<forall>d. 25 \<le> d \<and> d < 30 \<longrightarrow> should_roll (strategy st) d S' iv' = Inr True)"
proof -
  let ?tail = "map (\<lambda>i. (i, int i, 2::real)) [1 ..< 30]"
  have rows: "rows_of (flat_prices 30 2) = (0, 0, 2) # ?tail"
    by (simp add: rows_of_flat_prices upt_rec [of 0])
  from first_day_default [of 2 start ivs 0 df]
  obtain st1 tb ts pos where
    d1: "day_step default_config start ivs (0, 0, 2) (initial_state default_config df) = Inr st1"
    and tr: "trades (strategy st1) = [tb, ts]" "tr_action tb = BUY_STOCK"
      "tr_action ts = SELL_CALL"
    and p: "position (strategy st1) = Some pos" "expiration pos = 30"
    and cfg: "config (strategy st1) = default_config"
    by auto
  have "\<forall>row \<in> set ?tail. fst (snd row) < expiration pos"
    unfolding p(2) using flat_rows_before [of 2 1 30] by simp
  from run_loop_idle [OF p(1) this, of default_config start ivs]
  obtain st where l: "run_loop default_config start ivs ?tail st1 = Inr st"
    and s: "strategy st = strategy st1" by blast
  have "should_roll (strategy st) d S' iv' = Inr True" if "25 \<le> d \<and> d < 30" for d
    using that p cfg by (simp add: should_roll_def s Let_def default_config_def)
  then show ?thesis
    using d1 l s tr by (simp add: rows)
qed

lemma run_flat_30_log:
  "map_sum id (map tr_action \<circ> res_trades) (run default_config (flat_prices 30 2) None None)
     = Inr [BUY_STOCK, SELL_CALL]"
proof -
  let ?df = "flat_prices 30 2"
  obtain st where
    "run_loop default_config (fst (hd ?df))
       (implied_volatility_from_history (map snd ?df) 20 1.3) (rows_of ?df)
       (initial_state default_config ?df) = Inr st"
    "map tr_action (trades (strategy st)) = [BUY_STOCK, SELL_CALL]"
    using run_loop_flat_30 [of "fst (hd ?df)"
        "implied_volatility_from_history (map snd ?df) 20 1.3" ?df 0 0]
    by (elim exE conjE)
  then show ?thesis
    by (simp add: run_def Let_def)
qed






subsection \<open>The roll branch\<close>

text \<open>No operation that the day loop reaches appends a ROLL record.\<close>

lemma trades_no_roll_sell_call:
  assumes "sell_call s d S iv dte_arg = Inr (s', t)" "ROLL \<notin> tr_action ` set (trades s)"
  shows "ROLL \<notin> tr_action ` set (trades s')"
  using assms sell_call_position [OF assms(1)] by auto

lemma entry_block_no_roll:
  assumes "entry_block cfg i d S iv (s, c) = Inr (s', c')" "ROLL \<notin> tr_action ` set (trades s)"
  shows "ROLL \<notin> tr_action ` set (trades s')"
proof (cases "shares_held s = 0 \<and> position s = None \<and> (i = 0 \<or> times_called_away s > 0)")
  case True
  obtain s1 t1 where o: "open_stock_position s d S = (s1, t1)" by fastforce
  note f = open_stock_position_fields [OF o]
  have n1: "ROLL \<notin> tr_action ` set (trades s1)"
    using f(5) f(6) assms(2) by auto
  from assms(1) obtain t2 where "sell_call s1 d S iv None = Inr (s', t2)"
    unfolding entry_block_enter [OF True] using o by (auto split: sum.splits)
  from trades_no_roll_sell_call [OF this n1] show ?thesis .
next
  case False
  then show ?thesis using assms by (simp add: entry_block_skip)
qed

lemma expiration_block_no_roll:
  assumes e: "expiration_block d S iv (s, c) = Inr (s', c')"
    and n: "ROLL \<notin> tr_action ` set (trades s)"
  shows "ROLL \<notin> tr_action ` set (trades s')"
proof (cases "position s")
  case None
  then show ?thesis using e n by (simp add: expiration_block_None)
next
  case (Some pos)
  consider "d < expiration pos" | "expiration pos \<le> d" "strike pos \<le> S"
    | "expiration pos \<le> d" "S < strike pos" by linarith
  then show ?thesis
  proof cases
    case 1
    then show ?thesis using e n Some by (simp add: expiration_block_idle)
  next
    case 2
    from expiration_block_called_away(2) [OF Some 2]
    obtain t where ce: "check_expiration s d S
               = (s\<lparr>times_called_away := times_called_away s + 1, shares_held := 0,
                     position := None, trades := trades s @ [t]\<rparr>, Some t)"
      and t: "tr_action t = CALLED_AWAY"
      by blast
    have "s' = s\<lparr>times_called_away := times_called_away s + 1, shares_held := 0,
                     position := None, trades := trades s @ [t]\<rparr>"
      using e ce unfolding expiration_block_called_away(1) [OF Some 2] by simp
    then show ?thesis using n t by auto
  next
    case 3
    from expiration_block_expire(2) [OF Some 3]
    obtain t where ce: "check_expiration s d S
               = (s\<lparr>position := None, trades := trades s @ [t]\<rparr>, Some t)"
      and t: "tr_action t = EXPIRE"
      by blast
    let ?s1 = "s\<lparr>position := None, trades := trades s @ [t]\<rparr>"
    have n1: "ROLL \<notin> tr_action ` set (trades ?s1)" using n t by auto
    from e obtain t2 where "sell_call ?s1 d S iv None = Inr (s', t2)"
      unfolding expiration_block_expire(1) [OF Some 3] using ce by (auto split: sum.splits)
    from trades_no_roll_sell_call [OF this n1] show ?thesis .
  qed
qed

lemma day_step_no_roll:
  assumes "day_step cfg start ivs row st = Inr st'"
    and "ROLL \<notin> tr_action ` set (trades (strategy st))"
  shows "ROLL \<notin> tr_action ` set (trades (strategy st'))"
proof -
  obtain i d S where row: "row = (i, d, S)" by (cases row) auto
  from day_step_result [OF assms(1) [unfolded row]] obtain s1 c1 where
    a: "entry_block cfg i d S (iv_at ivs i) (strategy st, cash st) = Inr (s1, c1)"
    and b: "expiration_block d S (iv_at ivs i) (s1, c1) = Inr (strategy st', cash st')"
    by blast
  from expiration_block_no_roll [OF b entry_block_no_roll [OF a assms(2)]]
  show ?thesis .
qed

lemma run_loop_no_roll:
  assumes "run_loop cfg start ivs rows st = Inr st'"
    and "ROLL \<notin> tr_action ` set (trades (strategy st))"
  shows "ROLL \<notin> tr_action ` set (trades (strategy st'))"
  using assms
proof (induction rows arbitrary: st)
  case Nil
  then show ?case by simp
next
  case (Cons row rows)
  from Cons.prems(1) obtain st1 where
    d: "day_step cfg start ivs row st = Inr st1"
    and l: "run_loop cfg start ivs rows st1 = Inr st'"
    by (auto split: sum.splits)
  from Cons.IH [OF l day_step_no_roll [OF d Cons.prems(2)]] show ?case .
qed

lemma run_no_roll:
  assumes "run cfg prices start_date end_date = Inr res"
  shows "ROLL \<notin> tr_action ` set (res_trades res)"
proof -
  let ?df = "restrict_window prices start_date end_date"
  from assms obtain st where
    l: "run_loop cfg (fst (hd ?df)) (implied_volatility_from_history (map snd ?df) 20 1.3)
          (rows_of ?df) (initial_state cfg ?df) = Inr st"
    and res: "res_trades res = trades (strategy st)"
    by (auto simp: run_def Let_def split: sum.splits if_splits)
  have "ROLL \<notin> tr_action ` set (trades (strategy (initial_state cfg ?df)))"
    by (simp add: initial_state_def CoveredCallStrategy_init_def)
  from run_loop_no_roll [OF l this] res show ?thesis by simp
qed

text \<open>
  C1. On a day with an open position that has not reached its expiration date, the day
  loop does not evaluate the roll condition and does not roll, also when \<open>should_roll\<close>
  answers true: the roll branch is the \<open>elif\<close> of a test that its own \<open>if\<close> has already
  taken. The day step returns with the strategy, its trade log and the cash unchanged.
  No run logs a ROLL record (\<open>run_no_roll\<close>), and the run over thirty flat days at 2.00
  logs the purchase and the first sale only (\<open>run_flat_30_log\<close>).
\<close>

theorem day_step_skips_roll:
  assumes "position (strategy st) = Some pos"
    and "current_date < expiration pos"
    and "should_roll (strategy st) current_date stock_price (iv_at iv_series i) = Inr True"
  shows "\<exists>st'. day_step cfg backtest_start iv_series (i, current_date, stock_price) st = Inr st'
           \<and> strategy st' = strategy st \<and> cash st' = cash st
           \<and> trades (strategy st') = trades (strategy st)"
  using day_step_idle [OF assms(1,2), of cfg backtest_start iv_series i stock_price]
  by auto

theorem day_step_skips_roll_witness:
  "should_roll demo_strategy 25 2 (3/10) = Inr True
   \<and> map_sum id strategy
        (day_step default_config 0 (replicate 30 (Some (3/10))) (25, 25, 2) demo_state)
       = Inr demo_strategy"
proof -
  have p: "position (strategy demo_state) = Some demo_position"
    by (simp add: demo_state_def demo_strategy_def)
  have x: "(25::int) < expiration demo_position"
    by (simp add: demo_position_def)
  have iv: "iv_at (replicate 30 (Some (3/10))) 25 = 3/10"
    by (simp add: iv_at_def)
  have sr: "should_roll demo_strategy 25 2 (3/10) = Inr True"
    by (simp add: should_roll_def demo_strategy_def demo_position_def
          CoveredCallStrategy_init_def default_config_def)
  have sr': "should_roll (strategy demo_state) 25 2 (iv_at (replicate 30 (Some (3/10))) 25)
               = Inr True"
    using sr by (simp add: iv demo_state_def)
  from day_step_skips_roll [OF p x sr', of default_config 0]
  obtain st' where
    "day_step default_config 0 (replicate 30 (Some (3/10))) (25, 25, 2) demo_state = Inr st'"
    "strategy st' = strategy demo_state"
    by blast
  then show ?thesis
    using sr by (simp add: demo_state_def)
qed

end
